theory Spec2Isabelle
  imports Complex_Main
begin

section \<open>Enumerations of the bot\<close>

text \<open>The enums of \<^verbatim>\<open>main.py\<close>: \<^verbatim>\<open>ScamRisk\<close>, \<^verbatim>\<open>CommunitySize\<close> and \<^verbatim>\<open>JobCategory\<close>.\<close>

datatype ScamRisk = LOW | MEDIUM | HIGH | CRITICAL

datatype CommunitySize = MICRO | SMALL | MEDIUM_SMALL | MEDIUM_SIZE | GROWING

text \<open>
  \<^verbatim>\<open>CommunitySize.MEDIUM\<close> is written \<open>MEDIUM_SIZE\<close> here, the name \<open>MEDIUM\<close> being
  taken by \<^verbatim>\<open>ScamRisk.MEDIUM\<close>. \<open>size_value\<close> is the \<^verbatim>\<open>.value\<close> of the enum member.
\<close>

fun size_value :: "CommunitySize \<Rightarrow> string" where
  "size_value MICRO = ''1-30''"
| "size_value SMALL = ''31-50''"
| "size_value MEDIUM_SMALL = ''51-100''"
| "size_value MEDIUM_SIZE = ''101-200''"
| "size_value GROWING = ''201-500''"

section \<open>Data classes\<close>

text \<open>
  The dataclasses \<^verbatim>\<open>TelegramCommunityInfo\<close>, \<^verbatim>\<open>ProjectAnalysis\<close> and \<^verbatim>\<open>CommunityAlert\<close>.
  A \<^verbatim>\<open>datetime\<close> is the number of microseconds of the naive wall-clock time since the
  epoch; a Python \<^verbatim>\<open>float\<close> score is a rational (the scores are sums of small integers and
  of at most one quotient by ten, and are only ever compared with integers). A Python
  \<^verbatim>\<open>str\<close> is the \<open>string\<close> of its UTF-8 bytes.
\<close>

type_synonym datetime = int

record TelegramCommunityInfo =
  title :: string
  username :: string
  member_count :: int
  description :: string
  recent_messages :: "string list"
  admin_count :: int
  creation_date :: "datetime option"
  invite_link :: "string option"
  category :: string
  verified :: bool
  restricted :: bool

record ProjectAnalysis =
  legitimacy_score :: rat
  scam_indicators :: "string list"
  positive_indicators :: "string list"
  risk_level :: ScamRisk
  tokenomics_analysis :: "string option"
  roadmap_quality :: "string option"
  team_analysis :: "string option"
  sentiment_score :: rat

record CommunityAlert =
  community_info :: TelegramCommunityInfo
  project_analysis :: ProjectAnalysis
  discovery_timestamp :: datetime
  unique_id :: string
  size_category :: CommunitySize

section \<open>EnhancedDatabaseManager: the telegram_communities table\<close>

text \<open>
  A row of the table \<^verbatim>\<open>telegram_communities\<close> created by \<^verbatim>\<open>init_db\<close>. The columns hold
  the values that \<^verbatim>\<open>add_community_alert\<close> binds to the \<^verbatim>\<open>INSERT\<close>; a column written
  through \<^verbatim>\<open>isoformat\<close>, \<^verbatim>\<open>json.dumps\<close> or the enum's \<^verbatim>\<open>.value\<close> and read back through
  \<^verbatim>\<open>fromisoformat\<close>, \<^verbatim>\<open>json.loads\<close> or \<^verbatim>\<open>ScamRisk(...)\<close> holds the value itself. The
  column \<^verbatim>\<open>id\<close> is \<^verbatim>\<open>INTEGER PRIMARY KEY AUTOINCREMENT\<close>, \<^verbatim>\<open>unique_id\<close> is \<^verbatim>\<open>TEXT UNIQUE\<close>
  and \<^verbatim>\<open>sent\<close> is \<^verbatim>\<open>BOOLEAN DEFAULT FALSE\<close>.
\<close>

record community_row =
  row_id :: nat
  row_unique_id :: string
  row_title :: string
  row_username :: string
  row_member_count :: int
  row_description :: string
  row_admin_count :: int
  row_creation_date :: "datetime option"
  row_invite_link :: "string option"
  row_legitimacy_score :: rat
  row_risk_level :: ScamRisk
  row_scam_indicators :: "string list"
  row_positive_indicators :: "string list"
  row_tokenomics_analysis :: "string option"
  row_roadmap_quality :: "string option"
  row_team_analysis :: "string option"
  row_sentiment_score :: rat
  row_discovery_timestamp :: datetime
  row_sent :: bool

text \<open>
  The database: the rows of the table in insertion order, and the largest \<^verbatim>\<open>id\<close> handed
  out so far (SQLite's \<^verbatim>\<open>sqlite_sequence\<close> entry for an \<^verbatim>\<open>AUTOINCREMENT\<close> key).
\<close>

record database =
  telegram_communities :: "community_row list"
  last_id :: nat

datatype db_error = IntegrityError | OverflowError

text \<open>
  An \<^verbatim>\<open>INTEGER\<close> of SQLite is a signed 64-bit integer. \<^verbatim>\<open>cursor.execute\<close> binds the
  parameters before the statement runs, and binding a Python \<^verbatim>\<open>int\<close> outside that range
  raises \<^verbatim>\<open>OverflowError\<close>; the integers bound are \<^verbatim>\<open>member_count\<close> and
  \<^verbatim>\<open>admin_count\<close>.
\<close>

definition fits_int64 :: "int \<Rightarrow> bool" where
  "fits_int64 n = (- (2 ^ 63) \<le> n \<and> n < 2 ^ 63)"

text \<open>
  The \<^verbatim>\<open>INSERT\<close> statement followed by \<^verbatim>\<open>conn.commit()\<close>. After the binding, the
  \<^verbatim>\<open>UNIQUE\<close> constraint on \<^verbatim>\<open>unique_id\<close> raises \<^verbatim>\<open>sqlite3.IntegrityError\<close> when a row
  with the same value exists, and the statement then changes nothing; otherwise the row is
  appended with the next id and \<^verbatim>\<open>sent\<close> at its default.
\<close>

definition insert_community_row :: "database \<Rightarrow> CommunityAlert \<Rightarrow> db_error + database" where
  "insert_community_row db alert =
     (if \<not> fits_int64 (member_count (community_info alert))
         \<or> \<not> fits_int64 (admin_count (community_info alert))
      then Inl OverflowError
      else if list_ex (\<lambda>r. row_unique_id r = unique_id alert) (telegram_communities db)
      then Inl IntegrityError
      else Inr \<lparr>telegram_communities = telegram_communities db @
                 [\<lparr>row_id = Suc (last_id db),
                   row_unique_id = unique_id alert,
                   row_title = title (community_info alert),
                   row_username = username (community_info alert),
                   row_member_count = member_count (community_info alert),
                   row_description = description (community_info alert),
                   row_admin_count = admin_count (community_info alert),
                   row_creation_date = creation_date (community_info alert),
                   row_invite_link = invite_link (community_info alert),
                   row_legitimacy_score = legitimacy_score (project_analysis alert),
                   row_risk_level = risk_level (project_analysis alert),
                   row_scam_indicators = scam_indicators (project_analysis alert),
                   row_positive_indicators = positive_indicators (project_analysis alert),
                   row_tokenomics_analysis = tokenomics_analysis (project_analysis alert),
                   row_roadmap_quality = roadmap_quality (project_analysis alert),
                   row_team_analysis = team_analysis (project_analysis alert),
                   row_sentiment_score = sentiment_score (project_analysis alert),
                   row_discovery_timestamp = discovery_timestamp alert,
                   row_sent = False\<rparr>],
               last_id = Suc (last_id db)\<rparr>)"

text \<open>
  \<^verbatim>\<open>add_community_alert\<close>: \<^verbatim>\<open>True\<close> after the commit, \<^verbatim>\<open>False\<close> in the handler of
  \<^verbatim>\<open>sqlite3.IntegrityError\<close>, the only exception handled: an \<^verbatim>\<open>OverflowError\<close> leaves
  the function. The connection is closed in every case, and nothing is stored without the
  commit. The result is the database after the call and the outcome: the boolean
  returned, or the exception raised.
\<close>

definition add_community_alert ::
  "database \<Rightarrow> CommunityAlert \<Rightarrow> database \<times> (db_error + bool)" where
  "add_community_alert db alert =
     (case insert_community_row db alert of
        Inr db' \<Rightarrow> (db', Inr True)
      | Inl IntegrityError \<Rightarrow> (db, Inr False)
      | Inl OverflowError \<Rightarrow> (db, Inl OverflowError))"

text \<open>
  \<^verbatim>\<open>get_unsent_community_alerts\<close> rebuilds an alert from each row with \<^verbatim>\<open>sent = FALSE\<close>;
  the size category is recomputed from the member count.
\<close>

definition alert_of_row :: "community_row \<Rightarrow> CommunityAlert" where
  "alert_of_row row =
     \<lparr>community_info =
        \<lparr>title = row_title row, username = row_username row,
         member_count = row_member_count row, description = row_description row,
         recent_messages = [], admin_count = row_admin_count row,
         creation_date = row_creation_date row, invite_link = row_invite_link row,
         category = ''crypto'', verified = False, restricted = False\<rparr>,
      project_analysis =
        \<lparr>legitimacy_score = row_legitimacy_score row,
         scam_indicators = row_scam_indicators row,
         positive_indicators = row_positive_indicators row,
         risk_level = row_risk_level row,
         tokenomics_analysis = row_tokenomics_analysis row,
         roadmap_quality = row_roadmap_quality row,
         team_analysis = row_team_analysis row,
         sentiment_score = row_sentiment_score row\<rparr>,
      discovery_timestamp = row_discovery_timestamp row,
      unique_id = row_unique_id row,
      size_category =
        (let member_count = row_member_count row in
         if 1 \<le> member_count \<and> member_count \<le> 30 then MICRO
         else if 31 \<le> member_count \<and> member_count \<le> 50 then SMALL
         else if 51 \<le> member_count \<and> member_count \<le> 100 then MEDIUM_SMALL
         else if 101 \<le> member_count \<and> member_count \<le> 200 then MEDIUM_SIZE
         else GROWING)\<rparr>"

definition get_unsent_community_alerts :: "database \<Rightarrow> CommunityAlert list" where
  "get_unsent_community_alerts db =
     map alert_of_row (filter (\<lambda>r. \<not> row_sent r) (telegram_communities db))"

definition mark_community_alert_sent :: "database \<Rightarrow> string \<Rightarrow> database" where
  "mark_community_alert_sent db uid =
     db\<lparr>telegram_communities :=
          map (\<lambda>r. if row_unique_id r = uid then r\<lparr>row_sent := True\<rparr> else r)
            (telegram_communities db)\<rparr>"

section \<open>EnhancedTelegramBot: dispatch of community alerts\<close>

text \<open>
  The preference object of a subscriber is read with \<^verbatim>\<open>getattr(prefs, name, default)\<close>; a
  field is \<open>None\<close> when the object has no such attribute.
\<close>

record UserPreferences =
  pref_telegram_communities :: "bool option"
  pref_community_size_filters :: "string list option"

definition should_send_community_to_user :: "CommunityAlert \<Rightarrow> UserPreferences \<Rightarrow> bool" where
  "should_send_community_to_user alert prefs =
     (let telegram_enabled = (case pref_telegram_communities prefs of None \<Rightarrow> True | Some b \<Rightarrow> b) in
      if \<not> telegram_enabled then False
      else
        let community_filters =
              (case pref_community_size_filters prefs of None \<Rightarrow> [] | Some fs \<Rightarrow> fs) in
        if community_filters \<noteq> [] \<and> size_value (size_category alert) \<notin> set community_filters
        then False
        else if risk_level (project_analysis alert) = CRITICAL then False
        else True)"

text \<open>
  \<^verbatim>\<open>broadcast_community_alerts\<close>. The methods \<^verbatim>\<open>get_subscribers\<close> and
  \<^verbatim>\<open>get_user_preferences\<close> of the database manager are not part of the source file: the list
  of chat ids and the lookup of the preferences (\<open>None\<close> for a falsy result) are parameters.
  \<^verbatim>\<open>send_community_alert\<close> posts a message and swallows its own failures; a dispatch is
  recorded as the pair of the alert and the chat id. The inner loop returns the dispatches
  to the subscribers of one alert; the outer loop marks each alert as sent after it.
\<close>

fun send_to_subscribers ::
  "(int \<Rightarrow> UserPreferences option) \<Rightarrow> CommunityAlert \<Rightarrow> int list \<Rightarrow> (CommunityAlert \<times> int) list" where
  "send_to_subscribers get_user_preferences alert [] = []"
| "send_to_subscribers get_user_preferences alert (chat_id # subscribers) =
     (case get_user_preferences chat_id of
        None \<Rightarrow> send_to_subscribers get_user_preferences alert subscribers
      | Some prefs \<Rightarrow>
          if should_send_community_to_user alert prefs
          then (alert, chat_id) # send_to_subscribers get_user_preferences alert subscribers
          else send_to_subscribers get_user_preferences alert subscribers)"

fun broadcast_loop ::
  "(int \<Rightarrow> UserPreferences option) \<Rightarrow> int list \<Rightarrow> CommunityAlert list \<Rightarrow> database
     \<Rightarrow> database \<times> (CommunityAlert \<times> int) list" where
  "broadcast_loop get_user_preferences subscribers [] db = (db, [])"
| "broadcast_loop get_user_preferences subscribers (alert # alerts) db =
     (let sent = send_to_subscribers get_user_preferences alert subscribers;
          db' = mark_community_alert_sent db (unique_id alert);
          (db'', later) = broadcast_loop get_user_preferences subscribers alerts db'
      in (db'', sent @ later))"

definition broadcast_community_alerts ::
  "database \<Rightarrow> int list \<Rightarrow> (int \<Rightarrow> UserPreferences option)
     \<Rightarrow> database \<times> (CommunityAlert \<times> int) list" where
  "broadcast_community_alerts db subscribers get_user_preferences =
     broadcast_loop get_user_preferences subscribers (get_unsent_community_alerts db) db"

text \<open>Sample values: a community, an analysis of a given risk level, and an empty database.\<close>

definition sample_community :: TelegramCommunityInfo where
  "sample_community =
     \<lparr>title = ''Defi Club'', username = ''deficlub'', member_count = 42,
      description = ''a small defi community'', recent_messages = [], admin_count = 2,
      creation_date = None, invite_link = Some ''https://t.me/deficlub'',
      category = ''crypto'', verified = False, restricted = False\<rparr>"

definition sample_analysis :: "ScamRisk \<Rightarrow> ProjectAnalysis" where
  "sample_analysis risk =
     \<lparr>legitimacy_score = 55, scam_indicators = [], positive_indicators = [],
      risk_level = risk, tokenomics_analysis = None, roadmap_quality = None,
      team_analysis = None, sentiment_score = 0\<rparr>"

definition sample_alert :: "string \<Rightarrow> ScamRisk \<Rightarrow> CommunityAlert" where
  "sample_alert uid risk =
     \<lparr>community_info = sample_community, project_analysis = sample_analysis risk,
      discovery_timestamp = 0, unique_id = uid, size_category = SMALL\<rparr>"


definition empty_database :: database where
  "empty_database = \<lparr>telegram_communities = [], last_id = 0\<rparr>"

definition all_enabled :: UserPreferences where
  "all_enabled = \<lparr>pref_telegram_communities = Some True, pref_community_size_filters = Some []\<rparr>"

section \<open>TelegramScout.matches_size_filter\<close>

text \<open>
  The loop over \<^verbatim>\<open>size_filters\<close> returns \<^verbatim>\<open>True\<close> at the first filter whose range holds
  the member count, and \<^verbatim>\<open>False\<close> when the list is exhausted. The member count
  (\<open>mcount\<close>, the parameter \<^verbatim>\<open>member_count\<close>) is a Python \<^verbatim>\<open>int\<close>.
\<close>

fun matches_size_filter :: "int \<Rightarrow> CommunitySize list \<Rightarrow> bool" where
  "matches_size_filter mcount [] = False"
| "matches_size_filter mcount (size_filter # rest) =
     (if size_filter = MICRO \<and> 1 \<le> mcount \<and> mcount \<le> 30 then True
      else if size_filter = SMALL \<and> 31 \<le> mcount \<and> mcount \<le> 50 then True
      else if size_filter = MEDIUM_SMALL \<and> 51 \<le> mcount \<and> mcount \<le> 100 then True
      else if size_filter = MEDIUM_SIZE \<and> 101 \<le> mcount \<and> mcount \<le> 200 then True
      else if size_filter = GROWING \<and> 201 \<le> mcount \<and> mcount \<le> 500 then True
      else matches_size_filter mcount rest)"

text \<open>
  The selection step of \<^verbatim>\<open>search_crypto_communities\<close>: of the member counts of the
  communities fetched, those that pass the size filter are kept, in order.
\<close>

fun select_by_size :: "int list \<Rightarrow> CommunitySize list \<Rightarrow> int list" where
  "select_by_size [] size_filters = []"
| "select_by_size (mcount # rest) size_filters =
     (if matches_size_filter mcount size_filters
      then mcount # select_by_size rest size_filters
      else select_by_size rest size_filters)"

section \<open>Strings\<close>

text \<open>
  \<^verbatim>\<open>str.lower()\<close> on the ASCII letters: a byte of a multi-byte UTF-8 sequence is left as
  it is, so \<open>lower\<close> agrees with Python on ASCII text and not on the cased letters beyond
  it (Python lowers the Kelvin sign U+212A to \<^verbatim>\<open>k\<close>). Then \<^verbatim>\<open>s.startswith(p)\<close>, the substring test \<^verbatim>\<open>sub in s\<close>, \<^verbatim>\<open>sep.join(parts)\<close>
  and \<^verbatim>\<open>s.strip()\<close> for the ASCII white space.
\<close>

definition lower_char :: "char \<Rightarrow> char" where
  "lower_char c =
     (case map_of (zip ''ABCDEFGHIJKLMNOPQRSTUVWXYZ'' ''abcdefghijklmnopqrstuvwxyz'') c of
        Some d \<Rightarrow> d
      | None \<Rightarrow> c)"

definition lower :: "string \<Rightarrow> string" where
  "lower s = map lower_char s"

fun startswith :: "string \<Rightarrow> string \<Rightarrow> bool" where
  "startswith s [] = True"
| "startswith [] (p # ps) = False"
| "startswith (c # cs) (p # ps) = (c = p \<and> startswith cs ps)"

fun str_in :: "string \<Rightarrow> string \<Rightarrow> bool" where
  "str_in sub [] = (sub = [])"
| "str_in sub (c # cs) = (startswith (c # cs) sub \<or> str_in sub cs)"

fun join :: "string \<Rightarrow> string list \<Rightarrow> string" where
  "join sep [] = []"
| "join sep [x] = x"
| "join sep (x # y # ys) = x @ sep @ join sep (y # ys)"

definition is_space :: "char \<Rightarrow> bool" where
  "is_space c = (c \<in> set [CHR '' '', CHR 0x09, CHR 0x0A, CHR 0x0B, CHR 0x0C, CHR 0x0D,
                           CHR 0x1C, CHR 0x1D, CHR 0x1E, CHR 0x1F])"

definition strip :: "string \<Rightarrow> string" where
  "strip s = rev (dropWhile is_space (rev (dropWhile is_space s)))"

section \<open>Regular expressions\<close>

text \<open>
  The patterns of the source are sequences of literals, of \<^verbatim>\<open>\d+\<close> and \<^verbatim>\<open>[a-zA-Z0-9_]+\<close>,
  and one class of emoji, each emoji being one UTF-8 sequence. \<open>match_here\<close> is the number
  of characters of the match of a pattern at the start of a string, found in the order of a
  backtracking matcher: a greedy \<^verbatim>\<open>+\<close> tries the longest run first. \<open>findall\<close> is
  \<^verbatim>\<open>re.findall\<close> for a pattern without groups: the matches from left to right, the search
  resuming where a match ended. None of the patterns of the source matches the empty
  string; for a pattern that does, an empty match is recorded and the search moves on by one
  character. \<^verbatim>\<open>\d\<close> is an ASCII digit here; Python's class also holds the decimal digits of
  other scripts.
\<close>

datatype char_class = Digit | Word

fun in_class :: "char_class \<Rightarrow> char \<Rightarrow> bool" where
  "in_class Digit c = ((48::nat) \<le> of_char c \<and> of_char c \<le> (57::nat))"
| "in_class Word c =
     (((48::nat) \<le> of_char c \<and> of_char c \<le> (57::nat))
      \<or> ((65::nat) \<le> of_char c \<and> of_char c \<le> (90::nat))
      \<or> ((97::nat) \<le> of_char c \<and> of_char c \<le> (122::nat))
      \<or> c = CHR ''_'')"

datatype rx_item = Lit string | Plus char_class | OneOf "string list"

fun first_some :: "('a \<Rightarrow> 'b option) \<Rightarrow> 'a list \<Rightarrow> 'b option" where
  "first_some f [] = None"
| "first_some f (x # xs) = (case f x of Some y \<Rightarrow> Some y | None \<Rightarrow> first_some f xs)"

fun match_here :: "rx_item list \<Rightarrow> string \<Rightarrow> nat option" where
  "match_here [] s = Some 0"
| "match_here (Lit l # r) s =
     (if startswith s l
      then map_option (\<lambda>n. length l + n) (match_here r (drop (length l) s))
      else None)"
| "match_here (Plus cl # r) s =
     first_some (\<lambda>k. map_option (\<lambda>n. k + n) (match_here r (drop k s)))
       (rev [1 ..< Suc (length (takeWhile (in_class cl) s))])"
| "match_here (OneOf alts # r) s =
     first_some (\<lambda>a. if startswith s a
                      then map_option (\<lambda>n. length a + n) (match_here r (drop (length a) s))
                      else None) alts"

function findall :: "rx_item list \<Rightarrow> string \<Rightarrow> string list" where
  "findall rx [] = (case match_here rx [] of None \<Rightarrow> [] | Some n \<Rightarrow> [[]])"
| "findall rx (c # cs) =
     (case match_here rx (c # cs) of
        None \<Rightarrow> findall rx cs
      | Some 0 \<Rightarrow> [] # findall rx cs
      | Some (Suc n) \<Rightarrow> take (Suc n) (c # cs) # findall rx (drop n cs))"
  by pat_completeness auto
termination
  by (relation "measure (\<lambda>(rx, s). length s)") auto

section \<open>TelegramScout: the lexicons\<close>

text \<open>
  The attributes of \<^verbatim>\<open>TelegramScout\<close> that the analysis reads. The dictionary
  \<^verbatim>\<open>scam_indicators\<close> has the keys \<open>high_risk\<close>, \<open>medium_risk\<close> and
  \<open>suspicious_patterns\<close>, the dictionary \<^verbatim>\<open>legitimacy_indicators\<close> the keys
  \<open>positive\<close>, \<open>team_indicators\<close> and \<open>tech_indicators\<close>.
\<close>

record TelegramScout =
  crypto_keywords :: "string list"
  high_risk :: "string list"
  medium_risk :: "string list"
  suspicious_patterns :: "rx_item list list"
  positive :: "string list"
  team_indicators :: "string list"
  tech_indicators :: "string list"

definition TelegramScout_init :: TelegramScout where
  "TelegramScout_init =
     \<lparr>crypto_keywords =
        [''defi'', ''nft'', ''dao'', ''web3'', ''crypto'', ''blockchain'', ''token'', ''coin'',
         ''dapp'', ''protocol'', ''yield'', ''farming'', ''staking'', ''metaverse'', ''gamefi'',
         ''bridge'', ''swap'', ''dex'', ''cex'', ''mining'', ''node'', ''validator'',
         ''ethereum'', ''bitcoin'', ''solana'', ''polygon'', ''avalanche'', ''bsc''],
      high_risk =
        [''guaranteed profit'', ''risk-free'', ''100% safe'', ''get rich quick'',
         ''urgent'', ''limited time'', ''exclusive opportunity'', ''secret method'',
         ''financial freedom'', ''millionaire'', ''lamborghini'', ''to the moon'',
         ''pump'', ''dump'', ''shill'', ''exit scam'', ''rug pull''],
      medium_risk =
        [''investment opportunity'', ''high returns'', ''passive income'',
         ''early investor'', ''presale'', ''private sale'', ''airdrop'',
         ''referral bonus'', ''pyramid'', ''matrix'', ''doubler''],
      suspicious_patterns =
        [[Plus Digit, Lit ''x profit''],
         [Plus Digit, Lit ''% return''],
         [Lit ''$'', Plus Digit, Lit ''k per''],
         [Lit ''only '', Plus Digit, Lit '' spots''],
         [Lit ''invest $'', Plus Digit, Lit '' get $'', Plus Digit],
         [Plus Digit, Lit '' btc''],
         [Plus Digit, Lit '' eth'']],
      positive =
        [''whitepaper'', ''roadmap'', ''github'', ''audit'', ''doxxed team'',
         ''partnership'', ''testnet'', ''mainnet'', ''smart contract'',
         ''open source'', ''decentralized'', ''community driven'',
         ''development update'', ''milestone'', ''alpha'', ''beta''],
      team_indicators =
        [''founder'', ''ceo'', ''cto'', ''developer'', ''advisor'',
         ''team member'', ''linkedin'', ''experience'', ''background''],
      tech_indicators =
        [''consensus'', ''validator'', ''node'', ''blockchain'', ''protocol'',
         ''algorithm'', ''cryptography'', ''security'', ''scalability'']\<rparr>"

section \<open>ProjectAnalyzer\<close>

text \<open>
  The attributes of a \<^verbatim>\<open>ProjectAnalyzer\<close>. The sentiment analyzer is an object of NLTK:
  it is the function from a text to the compound score of \<^verbatim>\<open>polarity_scores\<close>, \<open>None\<close>
  where that call raises; the attribute itself is \<open>None\<close> when the analyzer could not be
  built. The methods read the lexicons through \<^verbatim>\<open>self.scout\<close>; \<open>scout\<close> is \<open>None\<close> for
  an object without that attribute.
\<close>

record ProjectAnalyzer =
  openai_api_key :: "string option"
  sentiment_analyzer :: "(string \<Rightarrow> rat option) option"
  scout :: "TelegramScout option"

datatype py_error = AttributeError | TypeError

text \<open>
  \<^verbatim>\<open>ProjectAnalyzer.__init__\<close> assigns \<^verbatim>\<open>openai_api_key\<close> and \<^verbatim>\<open>sentiment_analyzer\<close>
  and no other attribute. The second parameter is the outcome of
  \<^verbatim>\<open>SentimentIntensityAnalyzer()\<close>.
\<close>

definition ProjectAnalyzer_init ::
  "string option \<Rightarrow> (string \<Rightarrow> rat option) option \<Rightarrow> ProjectAnalyzer" where
  "ProjectAnalyzer_init key sentiment =
     \<lparr>openai_api_key = key, sentiment_analyzer = sentiment, scout = None\<rparr>"

definition hype_emojis :: "string list" where
  "hype_emojis =
     [[CHR 0xF0, CHR 0x9F, CHR 0x9A, CHR 0x80],
      [CHR 0xF0, CHR 0x9F, CHR 0x92, CHR 0xB0],
      [CHR 0xF0, CHR 0x9F, CHR 0x92, CHR 0x8E],
      [CHR 0xF0, CHR 0x9F, CHR 0x94, CHR 0xA5],
      [CHR 0xE2, CHR 0x9A, CHR 0xA1]]"

definition detect_scam_indicators :: "ProjectAnalyzer \<Rightarrow> string \<Rightarrow> py_error + string list" where
  "detect_scam_indicators self text =
     (case scout self of
        None \<Rightarrow> Inl AttributeError
      | Some sc \<Rightarrow>
          let text_lower = lower text;
              indicators =
                map (\<lambda>indicator. ''HIGH RISK: '' @ indicator)
                  (filter (\<lambda>indicator. str_in indicator text_lower) (high_risk sc));
              indicators = indicators @
                map (\<lambda>indicator. ''MEDIUM RISK: '' @ indicator)
                  (filter (\<lambda>indicator. str_in indicator text_lower) (medium_risk sc));
              indicators = indicators @
                concat (map (\<lambda>pattern. map (\<lambda>m. ''SUSPICIOUS PATTERN: '' @ m)
                                          (findall pattern text_lower))
                          (suspicious_patterns sc));
              indicators =
                (if length (findall [OneOf hype_emojis] text) > 10
                 then indicators @ [''EXCESSIVE HYPE EMOJIS''] else indicators);
              indicators =
                (if str_in ''telegram.me'' text_lower \<or> str_in ''t.me'' text_lower
                 then let suspicious_links = length (findall [Lit ''t.me/'', Plus Word] text_lower)
                      in if suspicious_links > 3
                         then indicators @ [''MULTIPLE SUSPICIOUS LINKS''] else indicators
                 else indicators)
          in Inr indicators)"

definition detect_positive_indicators :: "ProjectAnalyzer \<Rightarrow> string \<Rightarrow> py_error + string list" where
  "detect_positive_indicators self text =
     (case scout self of
        None \<Rightarrow> Inl AttributeError
      | Some sc \<Rightarrow>
          let text_lower = lower text;
              indicators =
                map (\<lambda>indicator. ''POSITIVE: '' @ indicator)
                  (filter (\<lambda>indicator. str_in indicator text_lower) (positive sc));
              indicators = indicators @
                map (\<lambda>indicator. ''TEAM: '' @ indicator)
                  (filter (\<lambda>indicator. str_in indicator text_lower) (team_indicators sc));
              indicators = indicators @
                map (\<lambda>indicator. ''TECHNICAL: '' @ indicator)
                  (filter (\<lambda>indicator. str_in indicator text_lower) (tech_indicators sc));
              indicators =
                (if str_in ''github.com'' text_lower
                 then indicators @ [''GITHUB REPOSITORY''] else indicators);
              indicators =
                (if list_ex (\<lambda>word. str_in word text_lower) [''audit'', ''certik'', ''peckshield'']
                 then indicators @ [''SECURITY AUDIT''] else indicators);
              indicators =
                (if str_in ''whitepaper'' text_lower \<or> str_in ''lite paper'' text_lower
                 then indicators @ [''DOCUMENTATION''] else indicators)
          in Inr indicators)"

text \<open>
  \<^verbatim>\<open>calculate_legitimacy_score\<close>. The clock \<^verbatim>\<open>datetime.now()\<close> is the parameter \<open>now\<close>;
  \<^verbatim>\<open>timedelta.days\<close> is the floor of the difference in days.
\<close>

definition calculate_legitimacy_score ::
  "string list \<Rightarrow> string list \<Rightarrow> TelegramCommunityInfo \<Rightarrow> datetime \<Rightarrow> rat" where
  "calculate_legitimacy_score scam_inds positive_inds info now =
     (let base_score = (50::rat);
          high_risk_count = length (filter (str_in ''HIGH RISK'') scam_inds);
          medium_risk_count = length (filter (str_in ''MEDIUM RISK'') scam_inds);
          suspicious = length (filter (str_in ''SUSPICIOUS PATTERN'') scam_inds);
          base_score = base_score - of_nat (high_risk_count * 20);
          base_score = base_score - of_nat (medium_risk_count * 10);
          base_score = base_score - of_nat (suspicious * 5);
          positive_count = length (filter (str_in ''POSITIVE'') positive_inds);
          team_count = length (filter (str_in ''TEAM'') positive_inds);
          tech_count = length (filter (str_in ''TECHNICAL'') positive_inds);
          base_score = base_score + of_nat (positive_count * 8);
          base_score = base_score + of_nat (team_count * 12);
          base_score = base_score + of_nat (tech_count * 10);
          base_score = (if admin_count info > 1 then base_score + 5 else base_score);
          base_score = (if verified info then base_score + 15 else base_score);
          base_score = (if restricted info then base_score - 10 else base_score);
          base_score =
            (case creation_date info of
               None \<Rightarrow> base_score
             | Some created \<Rightarrow>
                 let days_old = (now - created) div 86400000000
                 in if days_old > 30 then base_score + min 10 (of_int days_old / 10)
                    else base_score)
      in max 0 (min 100 base_score))"

definition determine_risk_level :: "rat \<Rightarrow> string list \<Rightarrow> ScamRisk" where
  "determine_risk_level score scam_inds =
     (let high_risk_count = length (filter (str_in ''HIGH RISK'') scam_inds) in
      if high_risk_count > 0 \<or> score < 20 then CRITICAL
      else if score < 40 then HIGH
      else if score < 60 then MEDIUM
      else LOW)"

definition warning_sign :: string where
  "warning_sign = [CHR 0xE2, CHR 0x9A, CHR 0xA0, CHR 0xEF, CHR 0xB8, CHR 0x8F]"

definition basic_tokenomics_analysis :: "string \<Rightarrow> string" where
  "basic_tokenomics_analysis text =
     (let text_lower = lower text;
          analysis =
            (if str_in ''token'' text_lower then [''Token mentioned''] else [])
            @ (if str_in ''supply'' text_lower then [''Supply information present''] else [])
            @ (if str_in ''burn'' text_lower \<or> str_in ''deflationary'' text_lower
               then [''Deflationary mechanism''] else [])
            @ (if str_in ''stake'' text_lower \<or> str_in ''staking'' text_lower
               then [''Staking utility''] else [])
            @ (if str_in ''governance'' text_lower then [''Governance utility''] else [])
            @ (if str_in ''unlimited supply'' text_lower
               then [warning_sign @ '' Unlimited supply''] else [])
            @ (if str_in ''dev wallet'' text_lower \<and> str_in ''90%'' text_lower
               then [warning_sign @ '' High dev allocation''] else [])
      in if analysis \<noteq> [] then join ''; '' analysis else ''Limited tokenomics information'')"

text \<open>
  \<^verbatim>\<open>analyze_tokenomics\<close>. The completion service is the parameter \<open>chat_completion\<close>: from
  the first 2000 characters of the text, which the prompt embeds, to the content of the
  first choice, \<open>None\<close> where the request or the access to the reply raises.
\<close>

definition analyze_tokenomics ::
  "ProjectAnalyzer \<Rightarrow> (string \<Rightarrow> string option) \<Rightarrow> string \<Rightarrow> string option" where
  "analyze_tokenomics self chat_completion text =
     (if openai_api_key self = None \<or> openai_api_key self = Some []
      then Some (basic_tokenomics_analysis text)
      else case chat_completion (take 2000 text) of
             Some content \<Rightarrow> Some (strip content)
           | None \<Rightarrow> Some (basic_tokenomics_analysis text))"

definition analyze_roadmap_quality :: "string \<Rightarrow> string" where
  "analyze_roadmap_quality text =
     (let text_lower = lower text;
          quality_indicators =
            (if str_in ''roadmap'' text_lower then [''Roadmap present''] else [])
            @ (if str_in ''q1'' text_lower \<or> str_in ''q2'' text_lower \<or> str_in ''quarter'' text_lower
               then [''Quarterly planning''] else [])
            @ (if str_in ''milestone'' text_lower then [''Clear milestones''] else [])
            @ (if str_in ''phase'' text_lower then [''Phased development''] else [])
            @ (if str_in ''mainnet'' text_lower \<or> str_in ''testnet'' text_lower
               then [''Network deployment planned''] else []);
          quality_indicators = quality_indicators
            @ (if str_in ''moon'' text_lower \<or> str_in ''lambo'' text_lower
               then [warning_sign @ '' Unrealistic expectations''] else []);
          quality_indicators = quality_indicators
            @ (if str_in ''coming soon'' text_lower \<and> length quality_indicators = 0
               then [warning_sign @ '' Vague timeline''] else [])
      in if quality_indicators \<noteq> [] then join ''; '' quality_indicators
         else ''No roadmap information'')"

definition analyze_team_presence :: "string \<Rightarrow> string" where
  "analyze_team_presence text =
     (let text_lower = lower text;
          team_inds =
            (if str_in ''team'' text_lower then [''Team mentioned''] else [])
            @ (if str_in ''founder'' text_lower \<or> str_in ''ceo'' text_lower
               then [''Leadership identified''] else [])
            @ (if str_in ''doxxed'' text_lower then [''Doxxed team''] else [])
            @ (if str_in ''anonymous'' text_lower then [warning_sign @ '' Anonymous team''] else [])
            @ (if str_in ''linkedin'' text_lower then [''Professional profiles''] else [])
            @ (if str_in ''experience'' text_lower \<or> str_in ''background'' text_lower
               then [''Experience highlighted''] else [])
      in if team_inds \<noteq> [] then join ''; '' team_inds else ''Limited team information'')"

definition analyze_sentiment :: "ProjectAnalyzer \<Rightarrow> string \<Rightarrow> rat" where
  "analyze_sentiment self text =
     (case sentiment_analyzer self of
        None \<Rightarrow> 0
      | Some polarity \<Rightarrow> (case polarity text of Some compound \<Rightarrow> compound | None \<Rightarrow> 0))"

definition all_text_of :: "TelegramCommunityInfo \<Rightarrow> string" where
  "all_text_of info =
     title info @ '' '' @ description info @ '' '' @ join '' '' (take 10 (recent_messages info))"

definition analyze_project ::
  "ProjectAnalyzer \<Rightarrow> datetime \<Rightarrow> (string \<Rightarrow> string option) \<Rightarrow> TelegramCommunityInfo
     \<Rightarrow> py_error + ProjectAnalysis" where
  "analyze_project self now chat_completion info =
     (let all_text = all_text_of info in
      case detect_scam_indicators self all_text of
        Inl e \<Rightarrow> Inl e
      | Inr scam_inds \<Rightarrow>
          (case detect_positive_indicators self all_text of
             Inl e \<Rightarrow> Inl e
           | Inr positive_inds \<Rightarrow>
               let score = calculate_legitimacy_score scam_inds positive_inds info now;
                   risk = determine_risk_level score scam_inds
               in Inr \<lparr>legitimacy_score = score,
                       scam_indicators = scam_inds,
                       positive_indicators = positive_inds,
                       risk_level = risk,
                       tokenomics_analysis = analyze_tokenomics self chat_completion all_text,
                       roadmap_quality = Some (analyze_roadmap_quality all_text),
                       team_analysis = Some (analyze_team_presence all_text),
                       sentiment_score = analyze_sentiment self all_text\<rparr>))"

section \<open>ProjectResearcher: the analysis dictionaries\<close>

datatype JobCategory =
    COMMUNITY_MANAGEMENT | MODERATION | GRAPHICS_DESIGN | SOCIAL_MEDIA | PR_MARKETING
  | BUSINESS_DEVELOPMENT | TECHNICAL_WRITING | DEVELOPMENT | LEGAL_COMPLIANCE | PARTNERSHIPS
  | CONTENT_CREATION | INFLUENCER_OUTREACH

fun category_value :: "JobCategory \<Rightarrow> string" where
  "category_value COMMUNITY_MANAGEMENT = ''community_management''"
| "category_value MODERATION = ''moderation''"
| "category_value GRAPHICS_DESIGN = ''graphics_design''"
| "category_value SOCIAL_MEDIA = ''social_media''"
| "category_value PR_MARKETING = ''pr_marketing''"
| "category_value BUSINESS_DEVELOPMENT = ''business_development''"
| "category_value TECHNICAL_WRITING = ''technical_writing''"
| "category_value DEVELOPMENT = ''development''"
| "category_value LEGAL_COMPLIANCE = ''legal_compliance''"
| "category_value PARTNERSHIPS = ''partnerships''"
| "category_value CONTENT_CREATION = ''content_creation''"
| "category_value INFLUENCER_OUTREACH = ''influencer_outreach''"

text \<open>
  The dictionaries that the researcher builds and reads, as records of the keys read by the
  scoring functions and by \<^verbatim>\<open>identify_project_needs\<close>. A nested dictionary is flattened:
  \<open>twitter_present\<close> is \<^verbatim>\<open>social_analysis['twitter']['present']\<close>, and so on. Scores and
  counts are Python integers.
\<close>

record SocialAnalysis =
  twitter_present :: bool
  twitter_followers :: int
  telegram_present :: bool
  telegram_members :: int
  discord_present :: bool
  overall_score :: int
  missing_platforms :: "string list"

record TechnicalAnalysis =
  whitepaper_present :: bool
  github_present :: bool
  contracts_deployed :: bool
  contracts_audited :: bool
  technical_score :: int
  missing_elements :: "string list"

record TeamAnalysis =
  transparency :: string
  linkedin_profiles :: int
  public_backgrounds :: int
  team_score :: int

record CommunityAnalysis =
  community_sentiment :: string
  community_score :: int

record TokenomicsAnalysis =
  burn_mechanism :: bool
  staking :: bool
  governance :: bool
  tokenomics_score :: int
  red_flags :: "string list"
  positive_aspects :: "string list"

text \<open>
  A number of the market data as decoded from JSON: \<open>PyNone\<close> is \<^verbatim>\<open>None\<close>. The dictionary
  \<^verbatim>\<open>basic_info\<close>: \<open>market_data\<close> is \<open>None\<close> when the key is absent, and is otherwise the
  dictionary under it; \<open>github\<close> is the list under \<^verbatim>\<open>social_links\<close>, empty when absent.
\<close>

datatype pynum = PyNone | PyNum rat

record BasicInfo =
  project_name :: string
  project_description :: string
  website :: string
  github :: "string list"
  market_data :: "(string \<rightharpoonup> pynum) option"

section \<open>ProjectResearcher: the dimension scores\<close>

definition calculate_social_media_score :: "SocialAnalysis \<Rightarrow> int" where
  "calculate_social_media_score social_dict =
     (let score = (0::int);
          score =
            (if twitter_present social_dict
             then let score = score + 30; followers = twitter_followers social_dict
                  in if followers > 10000 then score + 20
                     else if followers > 1000 then score + 10
                     else score
             else score);
          score =
            (if telegram_present social_dict
             then let score = score + 25; members = telegram_members social_dict
                  in if members > 5000 then score + 15
                     else if members > 1000 then score + 8
                     else score
             else score);
          score = (if discord_present social_dict then score + 25 else score);
          missing = int (length (missing_platforms social_dict));
          score = score - missing * 15
      in max 0 (min 100 score))"

definition calculate_technical_score :: "TechnicalAnalysis \<Rightarrow> int" where
  "calculate_technical_score technical_dict =
     (let score = (0::int);
          score = (if github_present technical_dict then score + 40 else score);
          score = (if whitepaper_present technical_dict then score + 30 else score);
          score = (if contracts_deployed technical_dict then score + 20 else score);
          score = (if contracts_audited technical_dict then score + 10 else score);
          missing_count = int (length (missing_elements technical_dict));
          score = score - missing_count * 20
      in max 0 (min 100 score))"

definition calculate_team_score :: "TeamAnalysis \<Rightarrow> int" where
  "calculate_team_score team_dict =
     (let score = (0::int);
          score =
            (if transparency team_dict = ''high'' then score + 50
             else if transparency team_dict = ''medium'' then score + 30
             else if transparency team_dict = ''low'' then score + 10
             else score);
          score = score + linkedin_profiles team_dict * 10;
          score = score + public_backgrounds team_dict * 5
      in min 100 score)"

definition calculate_community_score :: "CommunityAnalysis \<Rightarrow> int" where
  "calculate_community_score community_dict = 50"

definition calculate_tokenomics_score :: "TokenomicsAnalysis \<Rightarrow> int" where
  "calculate_tokenomics_score tokenomics_dict =
     (let score = (50::int);
          score = score + int (length (positive_aspects tokenomics_dict)) * 15;
          score = score - int (length (red_flags tokenomics_dict)) * 25
      in max 0 (min 100 score))"

text \<open>
  \<^verbatim>\<open>analyze_technical_aspects\<close> with its two placeholder helpers: a repository list that is
  not empty gives a GitHub entry that is present, and the whitepaper check answers that none
  is present.
\<close>

definition analyze_technical_aspects :: "BasicInfo \<Rightarrow> TechnicalAnalysis" where
  "analyze_technical_aspects basic_info =
     (let technical_dict =
            \<lparr>whitepaper_present = False, github_present = False, contracts_deployed = False,
             contracts_audited = False, technical_score = 0, missing_elements = []\<rparr>;
          technical_dict =
            (if github basic_info \<noteq> []
             then technical_dict\<lparr>github_present := length (github basic_info) > 0\<rparr>
             else technical_dict\<lparr>missing_elements :=
                    missing_elements technical_dict @ [''github_repository'']\<rparr>);
          technical_dict =
            (if website basic_info \<noteq> []
             then technical_dict\<lparr>whitepaper_present := False\<rparr>
             else technical_dict\<lparr>missing_elements :=
                    missing_elements technical_dict @ [''whitepaper'']\<rparr>)
      in technical_dict\<lparr>technical_score := calculate_technical_score technical_dict\<rparr>)"

text \<open>
  \<^verbatim>\<open>create_legitimacy_analysis\<close>, the overall analysis of the researcher: the legitimacy
  score is the mean of the social, technical and team scores.
\<close>

definition create_legitimacy_analysis ::
  "BasicInfo \<Rightarrow> SocialAnalysis \<Rightarrow> TechnicalAnalysis \<Rightarrow> TeamAnalysis \<Rightarrow> ProjectAnalysis" where
  "create_legitimacy_analysis basic_info social_dict technical_dict team_dict =
     (let scam_inds =
            (if transparency team_dict = ''anonymous'' then [''MEDIUM RISK: Anonymous team''] else [])
            @ (if technical_score technical_dict < 30
               then [''HIGH RISK: Poor technical foundation''] else [])
            @ (if overall_score social_dict < 20
               then [''MEDIUM RISK: Minimal social media presence''] else []);
          positive_inds =
            (if transparency team_dict = ''anonymous'' then []
             else [''POSITIVE: Team information available''])
            @ (if technical_score technical_dict < 30 then []
               else if technical_score technical_dict > 70
               then [''POSITIVE: Strong technical foundation''] else [])
            @ (if overall_score social_dict < 20 then []
               else if overall_score social_dict > 60
               then [''POSITIVE: Good social media presence''] else []);
          scores = [overall_score social_dict, technical_score technical_dict, team_score team_dict];
          score = (of_int (sum_list scores) :: rat) / of_nat (length scores)
      in \<lparr>legitimacy_score = score,
          scam_indicators = scam_inds,
          positive_indicators = positive_inds,
          risk_level =
            (if score > 70 then LOW
             else if score > 50 then MEDIUM
             else if score > 30 then HIGH
             else CRITICAL),
          tokenomics_analysis = Some ''See detailed tokenomics analysis'',
          roadmap_quality = Some ''See technical analysis'',
          team_analysis = Some ''See team analysis'',
          sentiment_score = 0\<rparr>)"

section \<open>ProjectResearcher: needs and job opportunities\<close>

record JobOpportunity =
  job_category :: JobCategory
  urgency :: string
  job_description :: string
  requirements :: "string list"
  pitch_strategy :: string
  estimated_budget :: string
  time_commitment :: string

record ProjectNeeds =
  needs_missing_elements :: "string list"
  strengths :: "string list"
  improvement_areas :: "string list"
  job_opportunities :: "JobOpportunity list"
  overall_maturity :: string

text \<open>An entry of the table \<^verbatim>\<open>pitch_strategies\<close>, and the table set by \<^verbatim>\<open>__init__\<close>.\<close>

record PitchStrategy =
  strategy :: string
  approach :: string
  key_points :: "string list"

fun pitch_strategies :: "JobCategory \<Rightarrow> PitchStrategy option" where
  "pitch_strategies COMMUNITY_MANAGEMENT = Some
     \<lparr>strategy = ''Focus on engagement metrics and community building experience'',
      approach = ''Show examples of communities you've grown and engagement strategies'',
      key_points = [''Community growth track record'', ''Engagement strategies'',
                    ''Crisis management'', ''Event organization'']\<rparr>"
| "pitch_strategies MODERATION = Some
     \<lparr>strategy = ''Emphasize reliability, availability, and conflict resolution skills'',
      approach = ''Highlight your availability across time zones and moderation tools experience'',
      key_points = [''24/7 availability'', ''Moderation tools expertise'',
                    ''Conflict resolution'', ''Rule enforcement'']\<rparr>"
| "pitch_strategies GRAPHICS_DESIGN = Some
     \<lparr>strategy = ''Lead with a strong portfolio showcasing crypto/web3 design experience'',
      approach = ''Create sample designs specifically for their project before pitching'',
      key_points = [''Crypto design portfolio'', ''Brand consistency'',
                    ''Quick turnaround'', ''Multiple format delivery'']\<rparr>"
| "pitch_strategies SOCIAL_MEDIA = Some
     \<lparr>strategy = ''Present a content strategy with growth projections and engagement tactics'',
      approach = ''Analyze their current social media and propose specific improvements'',
      key_points = [''Content strategy'', ''Growth tactics'',
                    ''Platform expertise'', ''Analytics tracking'']\<rparr>"
| "pitch_strategies PR_MARKETING = Some
     \<lparr>strategy = ''Demonstrate media connections and successful campaign examples'',
      approach = ''Propose specific PR opportunities and media outreach strategy'',
      key_points = [''Media relationships'', ''Campaign success stories'',
                    ''Industry knowledge'', ''Crisis communication'']\<rparr>"
| "pitch_strategies BUSINESS_DEVELOPMENT = Some
     \<lparr>strategy = ''Showcase network connections and partnership facilitation experience'',
      approach = ''Identify potential partnerships and present strategic opportunities'',
      key_points = [''Network connections'', ''Deal-making experience'',
                    ''Market insights'', ''Strategic thinking'']\<rparr>"
| "pitch_strategies other = None"

definition newline :: string where
  "newline = [CHR 0x0A]"

definition bullet :: string where
  "bullet = [CHR 0xE2, CHR 0x80, CHR 0xA2]"

text \<open>
  \<^verbatim>\<open>format_pitch_strategy\<close>: an empty dictionary (\<open>None\<close>, what
  \<^verbatim>\<open>pitch_strategies.get(category, {})\<close> gives for a category without an entry) yields the
  generic advice, an entry fills the template, which is stripped.
\<close>

definition format_pitch_strategy :: "PitchStrategy option \<Rightarrow> JobCategory \<Rightarrow> string" where
  "format_pitch_strategy strategy_dict cat =
     (case strategy_dict of
        None \<Rightarrow>
          ''Research the project thoroughly and propose specific improvements in your area of expertise.''
      | Some entry \<Rightarrow>
          strip
            (newline @ ''**Pitch Strategy:** '' @ strategy entry @ newline
             @ newline @ ''**Approach:** '' @ approach entry @ newline
             @ newline @ ''**Key Points to Highlight:**'' @ newline
             @ join newline (map (\<lambda>point. bullet @ '' '' @ point) (key_points entry)) @ newline
             @ newline @ ''**Pitch Template:**'' @ newline
             @ [CHR 0x22] @ ''Hi [Project Name] team! I've been following your project and see great potential. I noticed you could benefit from ''
             @ map (\<lambda>c. if c = CHR ''_'' then CHR '' '' else c) (category_value cat)
             @ '' support. Here's how I can help:'' @ newline
             @ newline @ ''[Specific examples of what you can deliver]'' @ newline
             @ ''[Your relevant experience/portfolio]'' @ newline
             @ ''[Proposed timeline and deliverables]'' @ newline
             @ newline @ ''I'd love to discuss how we can grow [Project Name] together. When would be a good time for a brief call?''
             @ [CHR 0x22] @ newline @ ''        ''))"

definition create_job_opportunity ::
  "JobCategory \<Rightarrow> string \<Rightarrow> string \<Rightarrow> string list \<Rightarrow> PitchStrategy option \<Rightarrow> string \<Rightarrow> string
     \<Rightarrow> JobOpportunity" where
  "create_job_opportunity cat urg descr reqs strategy_dict budget commitment =
     \<lparr>job_category = cat, urgency = urg, job_description = descr, requirements = reqs,
      pitch_strategy = format_pitch_strategy strategy_dict cat,
      estimated_budget = budget, time_commitment = commitment\<rparr>"

definition has_professional_branding :: "BasicInfo \<Rightarrow> SocialAnalysis \<Rightarrow> bool" where
  "has_professional_branding basic_info social_dict = False"

text \<open>
  \<^verbatim>\<open>identify_project_needs\<close>. The three lists grow through the checks in order; the triple
  is (\<^verbatim>\<open>missing_elements\<close>, \<^verbatim>\<open>improvement_areas\<close>, \<^verbatim>\<open>job_opportunities\<close>). The comparison
  \<^verbatim>\<open>market_cap < 10000000\<close> raises \<^verbatim>\<open>TypeError\<close> when the market cap is \<^verbatim>\<open>None\<close>.
\<close>

definition social_needs ::
  "SocialAnalysis \<Rightarrow> string list \<times> string list \<times> JobOpportunity list
     \<Rightarrow> string list \<times> string list \<times> JobOpportunity list" where
  "social_needs social_dict acc =
     (case acc of (missing, areas, jobs) \<Rightarrow>
        if overall_score social_dict < 70
        then let missing = missing @ [''strong_social_media_presence''];
                 areas = areas @ [''social_media_strategy''];
                 jobs =
                   (if ''twitter'' \<in> set (missing_platforms social_dict)
                    then jobs @ [create_job_opportunity SOCIAL_MEDIA ''high''
                           ''Twitter account management and content strategy needed''
                           [''Social media experience'', ''Crypto knowledge'', ''Content creation'']
                           (pitch_strategies SOCIAL_MEDIA)
                           ''$500-2000/month'' ''Part-time (10-20 hrs/week)'']
                    else jobs);
                 jobs =
                   (if telegram_members social_dict < 1000
                    then jobs @ [create_job_opportunity COMMUNITY_MANAGEMENT ''high''
                           ''Telegram community growth and management needed''
                           [''Community building experience'', ''24/7 availability'', ''Crypto enthusiasm'']
                           (pitch_strategies COMMUNITY_MANAGEMENT)
                           ''$800-3000/month'' ''Full-time'']
                    else jobs)
             in (missing, areas, jobs)
        else (missing, areas, jobs))"

definition technical_needs ::
  "TechnicalAnalysis \<Rightarrow> string list \<times> string list \<times> JobOpportunity list
     \<Rightarrow> string list \<times> string list \<times> JobOpportunity list" where
  "technical_needs technical_dict acc =
     (case acc of (missing, areas, jobs) \<Rightarrow>
        if technical_score technical_dict < 60
        then let missing = missing @ [''strong_technical_foundation''];
                 areas = areas @ [''technical_documentation''];
                 jobs =
                   (if ''whitepaper'' \<in> set (missing_elements technical_dict)
                    then jobs @ [create_job_opportunity TECHNICAL_WRITING ''high''
                           ''Technical writer needed for whitepaper and documentation''
                           [''Technical writing experience'', ''Blockchain knowledge'', ''Research skills'']
                           (pitch_strategies TECHNICAL_WRITING)
                           ''$2000-8000 (one-time)'' ''Project-based'']
                    else jobs);
                 jobs =
                   (if ''github_repository'' \<in> set (missing_elements technical_dict)
                    then jobs @ [create_job_opportunity DEVELOPMENT ''medium''
                           ''Blockchain developer needed for smart contract development''
                           [''Solidity experience'', ''Smart contract development'', ''Security knowledge'']
                           (pitch_strategies DEVELOPMENT)
                           ''$3000-10000/month'' ''Full-time'']
                    else jobs)
             in (missing, areas, jobs)
        else (missing, areas, jobs))"

definition team_needs ::
  "TeamAnalysis \<Rightarrow> string list \<times> string list \<times> JobOpportunity list
     \<Rightarrow> string list \<times> string list \<times> JobOpportunity list" where
  "team_needs team_dict acc =
     (case acc of (missing, areas, jobs) \<Rightarrow>
        if team_score team_dict < 50
        then (missing @ [''team_transparency''], areas @ [''team_credibility''],
              jobs @ [create_job_opportunity PR_MARKETING ''medium''
                ''PR specialist needed to build team credibility and media presence''
                [''PR experience'', ''Media relationships'', ''Crisis communication'']
                (pitch_strategies PR_MARKETING)
                ''$1500-5000/month'' ''Part-time''])
        else (missing, areas, jobs))"

definition branding_needs ::
  "BasicInfo \<Rightarrow> SocialAnalysis \<Rightarrow> string list \<times> string list \<times> JobOpportunity list
     \<Rightarrow> string list \<times> string list \<times> JobOpportunity list" where
  "branding_needs basic_info social_dict acc =
     (case acc of (missing, areas, jobs) \<Rightarrow>
        if \<not> has_professional_branding basic_info social_dict
        then (missing @ [''professional_branding''], areas @ [''visual_identity''],
              jobs @ [create_job_opportunity GRAPHICS_DESIGN ''medium''
                ''Graphics designer needed for branding and visual content''
                [''Graphic design portfolio'', ''Crypto/Web3 experience'', ''Brand development'']
                (pitch_strategies GRAPHICS_DESIGN)
                ''$1000-4000/month'' ''Part-time''])
        else (missing, areas, jobs))"

definition business_job :: JobOpportunity where
  "business_job =
     create_job_opportunity BUSINESS_DEVELOPMENT ''medium''
       ''Business development specialist for partnerships and growth''
       [''BD experience'', ''Crypto industry network'', ''Deal-making skills'']
       (pitch_strategies BUSINESS_DEVELOPMENT)
       ''$2000-8000/month'' ''Part-time to Full-time''"

definition get_market_cap :: "BasicInfo \<Rightarrow> pynum" where
  "get_market_cap basic_info =
     (case market_data basic_info of
        None \<Rightarrow> PyNum 0
      | Some md \<Rightarrow> (case md ''market_cap'' of None \<Rightarrow> PyNum 0 | Some v \<Rightarrow> v))"

definition identify_project_needs ::
  "BasicInfo \<Rightarrow> SocialAnalysis \<Rightarrow> TechnicalAnalysis \<Rightarrow> TeamAnalysis \<Rightarrow> CommunityAnalysis
     \<Rightarrow> py_error + ProjectNeeds" where
  "identify_project_needs basic_info social_dict technical_dict team_dict
       community_dict =
     (let acc = ([], [], []);
          acc = social_needs social_dict acc;
          acc = technical_needs technical_dict acc;
          acc = team_needs team_dict acc;
          acc = branding_needs basic_info social_dict acc
      in case get_market_cap basic_info of
           PyNone \<Rightarrow> Inl TypeError
         | PyNum market_cap \<Rightarrow>
             (case (if market_cap < 10000000
                    then (case acc of (missing, areas, jobs) \<Rightarrow>
                            (missing @ [''strategic_partnerships''],
                             areas @ [''business_development''],
                             jobs @ [business_job]))
                    else acc) of
                (missing, areas, jobs) \<Rightarrow>
                  let strengths_found =
                        (if overall_score social_dict > 70
                         then [''strong_social_media_presence''] else [])
                        @ (if technical_score technical_dict > 70
                           then [''solid_technical_foundation''] else [])
                        @ (if team_score team_dict > 70 then [''transparent_team''] else []);
                      avg_score =
                        (of_int (overall_score social_dict + technical_score technical_dict
                                 + team_score team_dict) :: rat) / 3
                  in Inr \<lparr>needs_missing_elements = missing,
                          strengths = strengths_found,
                          improvement_areas = areas,
                          job_opportunities = jobs,
                          overall_maturity =
                            (if avg_score < 40 then ''early''
                             else if avg_score < 70 then ''developing''
                             else ''mature'')\<rparr>))"

section \<open>Sample inputs\<close>

text \<open>
  A completion service that always fails, a community with empty text and default metrics,
  a community whose description holds a high-risk phrase, and an analyzer that carries the
  lexicons of \<^verbatim>\<open>TelegramScout.__init__\<close>.
\<close>

definition no_completion :: "string \<Rightarrow> string option" where
  "no_completion prompt = None"

definition empty_community :: TelegramCommunityInfo where
  "empty_community =
     \<lparr>title = [], username = [], member_count = 0, description = [], recent_messages = [],
      admin_count = 0, creation_date = None, invite_link = None, category = ''crypto'',
      verified = False, restricted = False\<rparr>"

definition pump_community :: TelegramCommunityInfo where
  "pump_community = sample_community\<lparr>description := ''Audited whitepaper, PUMP soon''\<rparr>"

definition configured_analyzer :: ProjectAnalyzer where
  "configured_analyzer =
     \<lparr>openai_api_key = None, sentiment_analyzer = None, scout = Some TelegramScout_init\<rparr>"

text \<open>
  The dictionaries that \<^verbatim>\<open>research_project_comprehensive\<close> hands to
  \<^verbatim>\<open>identify_project_needs\<close> for a project without links: \<open>social0\<close> as
  \<^verbatim>\<open>analyze_social_presence\<close> builds it when neither Twitter nor Telegram is known,
  \<open>team0\<close> as \<^verbatim>\<open>analyze_team\<close> builds it for a description without team keywords,
  \<open>community0\<close> as \<^verbatim>\<open>analyze_community_health\<close> builds it. \<open>null_cap_info\<close> is the
  \<^verbatim>\<open>basic_info\<close> after \<^verbatim>\<open>fetch_coingecko_data\<close> found no USD figures
  (\<^verbatim>\<open>.get('usd')\<close> gives \<^verbatim>\<open>None\<close>); \<open>bare_info\<close> has a market cap of 5,000,000 and no
  website, \<open>site_info\<close> differs from it by a website.
\<close>

definition null_cap_info :: BasicInfo where
  "null_cap_info =
     \<lparr>project_name = ''Sample'', project_description = [], website = [], github = [],
      market_data = Some [''market_cap'' \<mapsto> PyNone, ''volume'' \<mapsto> PyNone, ''price'' \<mapsto> PyNone]\<rparr>"
definition social0 :: SocialAnalysis where
  "social0 = \<lparr>twitter_present = False, twitter_followers = 0, telegram_present = False,
     telegram_members = 0, discord_present = False, overall_score = 0,
     missing_platforms = [''twitter'', ''telegram'']\<rparr>"

definition team0 :: TeamAnalysis where
  "team0 = \<lparr>transparency = ''anonymous'', linkedin_profiles = 0, public_backgrounds = 0, team_score = 0\<rparr>"

definition community0 :: CommunityAnalysis where
  "community0 = \<lparr>community_sentiment = ''neutral'', community_score = 50\<rparr>"

definition tokenomics0 :: TokenomicsAnalysis where
  "tokenomics0 =
     \<lparr>burn_mechanism = True, staking = False, governance = False, tokenomics_score = 0,
      red_flags = [''unlimited_supply''], positive_aspects = [''burn_mechanism'']\<rparr>"

definition bare_info :: BasicInfo where
  "bare_info =
     \<lparr>project_name = ''Sample'', project_description = [], website = [], github = [],
      market_data = Some [''market_cap'' \<mapsto> PyNum 5000000]\<rparr>"

definition site_info :: BasicInfo where
  "site_info = bare_info\<lparr>website := ''https://sample.org''\<rparr>"

definition jobs_of :: "py_error + ProjectNeeds \<Rightarrow> JobOpportunity list" where
  "jobs_of r = (case r of Inl e \<Rightarrow> [] | Inr needs \<Rightarrow> job_opportunities needs)"


section \<open>Maturity as the specification words it\<close>




section \<open>Size filter\<close>

lemma matches_size_filter_range:
  "matches_size_filter mcount size_filters \<Longrightarrow> 1 \<le> mcount \<and> mcount \<le> 500"
proof (induction size_filters)
  case Nil
  then show ?case by simp
next
  case (Cons size_filter rest)
  show ?case
  proof (cases "matches_size_filter mcount rest")
    case True
    then show ?thesis by (rule Cons.IH)
  next
    case False
    with Cons.prems show ?thesis
      by (cases size_filter) (simp_all split: if_splits)
  qed
qed

lemma select_by_size_subset:
  "m \<in> set (select_by_size counts size_filters) \<Longrightarrow> matches_size_filter m size_filters"
  by (induction counts) (auto split: if_splits)

text \<open>
  C10: whatever the list of size filters, \<open>matches_size_filter\<close> is true only for a member
  count between 1 and 500 inclusive; a count of 0 or above 500 matches no filter, and no
  community with such a count is kept by the selection of the community search.
\<close>

theorem matches_size_filter_only_1_to_500:
  "(matches_size_filter mcount size_filters \<longrightarrow> 1 \<le> mcount \<and> mcount \<le> 500)
   \<and> \<not> matches_size_filter 0 size_filters
   \<and> (500 < mcount \<longrightarrow> \<not> matches_size_filter mcount size_filters)
   \<and> (\<forall>m \<in> set (select_by_size counts size_filters). 1 \<le> m \<and> m \<le> 500)"
proof -
  have zero: "\<not> matches_size_filter 0 size_filters"
  proof
    assume "matches_size_filter 0 size_filters"
    then have "(1::int) \<le> 0" by (rule matches_size_filter_range [THEN conjunct1])
    then show False by simp
  qed
  have sel: "\<forall>m \<in> set (select_by_size counts size_filters). 1 \<le> m \<and> m \<le> 500"
  proof
    fix m assume "m \<in> set (select_by_size counts size_filters)"
    then have "matches_size_filter m size_filters" by (rule select_by_size_subset)
    then show "1 \<le> m \<and> m \<le> 500" by (rule matches_size_filter_range)
  qed
  have above: "500 < mcount \<longrightarrow> \<not> matches_size_filter mcount size_filters"
  proof (intro impI notI)
    assume "500 < mcount" and "matches_size_filter mcount size_filters"
    from this(2) have "mcount \<le> 500" by (rule matches_size_filter_range [THEN conjunct2])
    with \<open>500 < mcount\<close> show False by simp
  qed
  from zero sel above matches_size_filter_range [of mcount size_filters]
  show ?thesis by blast
qed

theorem matches_size_filter_only_1_to_500_witness:
  "matches_size_filter 42 [MICRO, SMALL] \<and> (1::int) \<le> 42 \<and> (42::int) \<le> 500
   \<and> \<not> matches_size_filter 0 [MICRO, SMALL]
   \<and> (500::int) < 501 \<and> \<not> matches_size_filter 501 [MICRO, SMALL]
   \<and> select_by_size [0, 42, 501] [MICRO, SMALL] = [42]"
proof -
  have a: "matches_size_filter 42 [MICRO, SMALL]" by simp
  have b: "select_by_size [0, 42, 501] [MICRO, SMALL] = [42]" by simp
  from a b matches_size_filter_only_1_to_500 [of 42 "[MICRO, SMALL]" "[0, 42, 501]"]
    matches_size_filter_only_1_to_500 [of 501 "[MICRO, SMALL]" "[0, 42, 501]"]
  show ?thesis by simp
qed

section \<open>Suppression of critical alerts\<close>

lemma critical_not_sent:
  "risk_level (project_analysis alert) = CRITICAL \<Longrightarrow> \<not> should_send_community_to_user alert prefs"
  by (simp add: should_send_community_to_user_def Let_def)

lemma send_to_subscribers_not_critical:
  "(a, c) \<in> set (send_to_subscribers gp alert subscribers)
     \<Longrightarrow> a = alert \<and> risk_level (project_analysis a) \<noteq> CRITICAL"
proof (induction subscribers)
  case Nil
  then show ?case by simp
next
  case (Cons chat_id subscribers)
  show ?case
  proof (cases "gp chat_id")
    case None
    with Cons show ?thesis by auto
  next
    case (Some prefs)
    show ?thesis
    proof (cases "should_send_community_to_user alert prefs")
      case True
      then have "risk_level (project_analysis alert) \<noteq> CRITICAL"
        using critical_not_sent [of alert prefs] by blast
      with Cons Some True show ?thesis by auto
    next
      case False
      with Cons Some show ?thesis by auto
    qed
  qed
qed

lemma broadcast_loop_not_critical:
  "(a, c) \<in> set (snd (broadcast_loop gp subscribers alerts db))
     \<Longrightarrow> risk_level (project_analysis a) \<noteq> CRITICAL"
proof (induction alerts arbitrary: db)
  case Nil
  then show ?case by simp
next
  case (Cons alert alerts)
  obtain db'' later where rest:
    "broadcast_loop gp subscribers alerts (mark_community_alert_sent db (unique_id alert)) = (db'', later)"
    by (cases "broadcast_loop gp subscribers alerts (mark_community_alert_sent db (unique_id alert))")
  with Cons.prems have "(a, c) \<in> set (send_to_subscribers gp alert subscribers) \<or> (a, c) \<in> set later"
    by (simp add: Let_def)
  then show ?case
  proof
    assume "(a, c) \<in> set (send_to_subscribers gp alert subscribers)"
    then show ?thesis using send_to_subscribers_not_critical by blast
  next
    assume "(a, c) \<in> set later"
    with rest have "(a, c) \<in> set (snd (broadcast_loop gp subscribers alerts
                        (mark_community_alert_sent db (unique_id alert))))" by simp
    then show ?thesis by (rule Cons.IH)
  qed
qed

text \<open>
  C6: for an alert of risk level CRITICAL and any preference record,
  \<open>should_send_community_to_user\<close> is false; hence no dispatch made by
  \<open>broadcast_community_alerts\<close> carries an alert of risk level CRITICAL, whatever the
  database, the subscribers and their preferences.
\<close>

theorem critical_alert_never_dispatched:
  "(risk_level (project_analysis alert) = CRITICAL \<longrightarrow> \<not> should_send_community_to_user alert prefs)
   \<and> (\<forall>(a, c) \<in> set (snd (broadcast_community_alerts db subscribers get_user_preferences)).
         risk_level (project_analysis a) \<noteq> CRITICAL)"
proof
  show "risk_level (project_analysis alert) = CRITICAL \<longrightarrow> \<not> should_send_community_to_user alert prefs"
    using critical_not_sent by blast
  show "\<forall>(a, c) \<in> set (snd (broadcast_community_alerts db subscribers get_user_preferences)).
         risk_level (project_analysis a) \<noteq> CRITICAL"
    unfolding broadcast_community_alerts_def
    using broadcast_loop_not_critical by blast
qed

theorem critical_alert_never_dispatched_witness:
  "risk_level (project_analysis (sample_alert ''a'' CRITICAL)) = CRITICAL
   \<and> \<not> should_send_community_to_user (sample_alert ''a'' CRITICAL) all_enabled
   \<and> should_send_community_to_user (sample_alert ''b'' MEDIUM) all_enabled
   \<and> map (\<lambda>(a, c). (unique_id a, c))
        (snd (broadcast_community_alerts
           (fst (add_community_alert (fst (add_community_alert empty_database
              (sample_alert ''a'' CRITICAL))) (sample_alert ''b'' MEDIUM)))
           [7] (\<lambda>chat_id. Some all_enabled))) = [(''b'', 7)]"
proof -
  have a: "risk_level (project_analysis (sample_alert ''a'' CRITICAL)) = CRITICAL"
    by (simp add: sample_alert_def sample_analysis_def)
  have b: "should_send_community_to_user (sample_alert ''b'' MEDIUM) all_enabled"
    by (simp add: should_send_community_to_user_def sample_alert_def sample_analysis_def
        all_enabled_def)
  have c: "map (\<lambda>(a, c). (unique_id a, c))
        (snd (broadcast_community_alerts
           (fst (add_community_alert (fst (add_community_alert empty_database
              (sample_alert ''a'' CRITICAL))) (sample_alert ''b'' MEDIUM)))
           [7] (\<lambda>chat_id. Some all_enabled))) = [(''b'', 7)]"
    by (simp add: broadcast_community_alerts_def get_unsent_community_alerts_def
        add_community_alert_def insert_community_row_def fits_int64_def empty_database_def
        sample_alert_def sample_analysis_def sample_community_def all_enabled_def
        alert_of_row_def should_send_community_to_user_def mark_community_alert_sent_def)
  from a b c critical_alert_never_dispatched [of "sample_alert ''a'' CRITICAL" all_enabled]
  show ?thesis by simp
qed

section \<open>Insert-if-absent\<close>



lemma add_oversized:
  assumes "\<not> fits_int64 (member_count (community_info alert))
           \<or> \<not> fits_int64 (admin_count (community_info alert))"
  shows "add_community_alert db alert = (db, Inl OverflowError)"
  using assms by (auto simp add: add_community_alert_def insert_community_row_def)




section \<open>The high-risk override\<close>

lemma high_risk_tag: "str_in ''HIGH RISK'' (''HIGH RISK: '' @ p)"
  by simp

lemma detect_scam_indicators_high_risk:
  assumes "scout self = Some sc"
  shows "\<exists>inds. detect_scam_indicators self text = Inr inds
           \<and> (\<forall>p \<in> set (high_risk sc). str_in p (lower text) \<longrightarrow> ''HIGH RISK: '' @ p \<in> set inds)"
  using assms by (auto simp add: detect_scam_indicators_def Let_def)

lemma detect_positive_indicators_returns:
  assumes "scout self = Some sc"
  shows "\<exists>inds. detect_positive_indicators self text = Inr inds"
  using assms by (simp add: detect_positive_indicators_def Let_def)

lemma determine_risk_level_override:
  assumes "x \<in> set inds" and "str_in ''HIGH RISK'' x"
  shows "determine_risk_level score inds = CRITICAL"
proof -
  from assms have "x \<in> set (filter (str_in ''HIGH RISK'') inds)" by simp
  then have "filter (str_in ''HIGH RISK'') inds \<noteq> []" by (metis empty_iff empty_set)
  then have "length (filter (str_in ''HIGH RISK'') inds) > 0" by simp
  then show ?thesis by (simp add: determine_risk_level_def Let_def)
qed

text \<open>
  With a scout attached, the override works as intended: if the lowercased text of a
  community (lowercased as \<open>lower\<close> does, on the ASCII letters) contains a phrase of the
  scout's high-risk list, \<open>analyze_project\<close> returns an analysis of risk level CRITICAL,
  and with the indicators it found \<open>determine_risk_level\<close> answers CRITICAL for every
  score.
\<close>

lemma override_with_scout:
  assumes "scout self = Some sc"
    and "p \<in> set (high_risk sc)"
    and "str_in p (lower (all_text_of info))"
  shows "\<exists>pa. analyze_project self now chat_completion info = Inr pa
           \<and> risk_level pa = CRITICAL
           \<and> (\<forall>score. determine_risk_level score (scam_indicators pa) = CRITICAL)"
proof -
  from assms(1) detect_scam_indicators_high_risk [of self sc "all_text_of info"]
  obtain sinds where s: "detect_scam_indicators self (all_text_of info) = Inr sinds"
    and mem: "\<forall>p \<in> set (high_risk sc). str_in p (lower (all_text_of info))
                \<longrightarrow> ''HIGH RISK: '' @ p \<in> set sinds"
    by blast
  from assms(1) detect_positive_indicators_returns [of self sc "all_text_of info"]
  obtain pinds where p: "detect_positive_indicators self (all_text_of info) = Inr pinds"
    by blast
  from mem assms(2,3) have hit: "''HIGH RISK: '' @ p \<in> set sinds" by blast
  have crit: "determine_risk_level score sinds = CRITICAL" for score
    using hit high_risk_tag by (rule determine_risk_level_override)
  from s p crit show ?thesis
    by (simp add: analyze_project_def Let_def)
qed

text \<open>
  C1 fails on the code: the text of \<open>pump_community\<close> contains the high-risk phrase
  \<^verbatim>\<open>pump\<close> of the scout's list, yet \<open>analyze_project\<close> on an analyzer as
  \<^verbatim>\<open>ProjectAnalyzer.__init__\<close> builds it assigns no risk level: it raises
  \<^verbatim>\<open>AttributeError\<close>, whatever the API key, the sentiment analyzer, the clock and the
  completion service.
\<close>

theorem analyze_project_raises_without_scout:
  "''pump'' \<in> set (high_risk TelegramScout_init)
   \<and> str_in ''pump'' (lower (all_text_of pump_community))
   \<and> analyze_project (ProjectAnalyzer_init key sentiment) now chat_completion pump_community
       = Inl AttributeError"
  by (simp add: TelegramScout_init_def all_text_of_def pump_community_def sample_community_def
      lower_def lower_char_def analyze_project_def detect_scam_indicators_def
      ProjectAnalyzer_init_def)

section \<open>Scores between 0 and 100\<close>

lemma clamp_int: "0 \<le> max 0 (min 100 (x::int)) \<and> max 0 (min 100 x) \<le> 100"
  by simp

lemma clamp_rat: "0 \<le> max 0 (min 100 (x::rat)) \<and> max 0 (min 100 x) \<le> 100"
  by simp

lemma social_range:
  "0 \<le> calculate_social_media_score sd \<and> calculate_social_media_score sd \<le> 100"
  unfolding calculate_social_media_score_def Let_def by (rule clamp_int)

lemma technical_range:
  "0 \<le> calculate_technical_score td \<and> calculate_technical_score td \<le> 100"
  unfolding calculate_technical_score_def Let_def by (rule clamp_int)

lemma tokenomics_range:
  "0 \<le> calculate_tokenomics_score kd \<and> calculate_tokenomics_score kd \<le> 100"
  unfolding calculate_tokenomics_score_def Let_def by (rule clamp_int)

lemma community_range:
  "0 \<le> calculate_community_score cd \<and> calculate_community_score cd \<le> 100"
  by (simp add: calculate_community_score_def)

lemma legitimacy_range:
  "0 \<le> calculate_legitimacy_score sis pis info now \<and> calculate_legitimacy_score sis pis info now \<le> 100"
  unfolding calculate_legitimacy_score_def Let_def by (rule clamp_rat)

lemma team_upper: "calculate_team_score tm \<le> 100"
  by (simp add: calculate_team_score_def Let_def)

lemma team_lower:
  assumes "0 \<le> linkedin_profiles tm" and "0 \<le> public_backgrounds tm"
  shows "0 \<le> calculate_team_score tm"
  using assms by (simp add: calculate_team_score_def Let_def)

lemma create_legitimacy_analysis_range:
  assumes "0 \<le> overall_score sd" "overall_score sd \<le> 100"
    and "0 \<le> technical_score td" "technical_score td \<le> 100"
    and "0 \<le> team_score tm" "team_score tm \<le> 100"
  shows "0 \<le> legitimacy_score (create_legitimacy_analysis b sd td tm)
       \<and> legitimacy_score (create_legitimacy_analysis b sd td tm) \<le> 100"
proof -
  let ?n = "overall_score sd + technical_score td + team_score tm"
  from assms have "0 \<le> ?n" and "?n \<le> 300" by simp_all
  then have "(0::rat) \<le> of_int ?n" and "(of_int ?n :: rat) \<le> of_int 300"
    by (simp_all only: of_int_0_le_iff of_int_le_iff)
  then show ?thesis
    by (simp add: create_legitimacy_analysis_def Let_def)
qed

text \<open>
  C2: the social, technical, tokenomics and community scores and the legitimacy score lie
  between 0 and 100 for every input; the team score is at most 100 for every input and is
  not negative when the counts of LinkedIn profiles and of public backgrounds are not
  negative.
\<close>

theorem scores_in_range:
  "0 \<le> calculate_social_media_score sd \<and> calculate_social_media_score sd \<le> 100
   \<and> 0 \<le> calculate_technical_score td \<and> calculate_technical_score td \<le> 100
   \<and> 0 \<le> calculate_tokenomics_score kd \<and> calculate_tokenomics_score kd \<le> 100
   \<and> 0 \<le> calculate_community_score cd \<and> calculate_community_score cd \<le> 100
   \<and> 0 \<le> calculate_legitimacy_score sis pis info now
   \<and> calculate_legitimacy_score sis pis info now \<le> 100
   \<and> calculate_team_score tm \<le> 100
   \<and> (0 \<le> linkedin_profiles tm \<and> 0 \<le> public_backgrounds tm \<longrightarrow> 0 \<le> calculate_team_score tm)"
  using social_range [of sd] technical_range [of td] tokenomics_range [of kd]
    community_range [of cd] legitimacy_range [of sis pis info now] team_upper [of tm]
    team_lower [of tm]
  by blast

theorem scores_in_range_witness:
  "(0::int) \<le> linkedin_profiles (team0\<lparr>linkedin_profiles := 3, public_backgrounds := 20\<rparr>)
   \<and> (0::int) \<le> public_backgrounds (team0\<lparr>linkedin_profiles := 3, public_backgrounds := 20\<rparr>)
   \<and> calculate_team_score (team0\<lparr>linkedin_profiles := 3, public_backgrounds := 20\<rparr>) = 100
   \<and> calculate_team_score team0 = 0
   \<and> 0 \<le> calculate_social_media_score social0 \<and> calculate_social_media_score social0 \<le> 100
   \<and> 0 \<le> calculate_legitimacy_score [''HIGH RISK: pump''] [] empty_community 0
   \<and> calculate_legitimacy_score [''HIGH RISK: pump''] [] empty_community 0 \<le> 100"
proof -
  have a: "(0::int) \<le> linkedin_profiles (team0\<lparr>linkedin_profiles := 3, public_backgrounds := 20\<rparr>)"
    by simp
  have b: "(0::int) \<le> public_backgrounds (team0\<lparr>linkedin_profiles := 3, public_backgrounds := 20\<rparr>)"
    by simp
  have c: "calculate_team_score (team0\<lparr>linkedin_profiles := 3, public_backgrounds := 20\<rparr>) = 100"
    by (simp add: calculate_team_score_def team0_def)
  have d: "calculate_team_score team0 = 0"
    by (simp add: calculate_team_score_def team0_def)
  from a b c d
    scores_in_range [of social0 "analyze_technical_aspects bare_info" tokenomics0 community0
      "[''HIGH RISK: pump'']" "[]" empty_community 0
      "team0\<lparr>linkedin_profiles := 3, public_backgrounds := 20\<rparr>"]
  show ?thesis by blast
qed

section \<open>Empty input\<close>

text \<open>
  C3, as stated, fails: for no indicators and the default metrics the score is the base
  score 50, and the risk level derived from 50 and no indicators is MEDIUM, not LOW.
\<close>

theorem empty_input_not_low_counterexample:
  "calculate_legitimacy_score [] [] empty_community 0 = 50
   \<and> determine_risk_level (calculate_legitimacy_score [] [] empty_community 0) [] = MEDIUM
   \<and> determine_risk_level (calculate_legitimacy_score [] [] empty_community 0) [] \<noteq> LOW"
  by (simp add: calculate_legitimacy_score_def determine_risk_level_def empty_community_def)

lemma detect_scam_blank:
  "detect_scam_indicators (self\<lparr>scout := Some TelegramScout_init\<rparr>) ''  '' = Inr []"
  by (simp add: detect_scam_indicators_def TelegramScout_init_def Let_def lower_def lower_char_def
      hype_emojis_def)

lemma detect_positive_blank:
  "detect_positive_indicators (self\<lparr>scout := Some TelegramScout_init\<rparr>) ''  '' = Inr []"
  by (simp add: detect_positive_indicators_def TelegramScout_init_def Let_def lower_def lower_char_def)

text \<open>
  C3, amended: for a community with empty title, empty description, no messages, no more
  than the default metrics (admin count 0, not verified, not restricted, no creation date)
  and an analyzer that carries the lexicons of the scout, \<open>analyze_project\<close> returns the
  base score 50 with both indicator lists empty, and the risk level is MEDIUM.
\<close>

theorem empty_input_base_score_medium:
  "\<exists>pa. analyze_project (self\<lparr>scout := Some TelegramScout_init\<rparr>) now chat_completion
            (info\<lparr>title := [], description := [], recent_messages := [], admin_count := 0,
                  verified := False, restricted := False, creation_date := None\<rparr>) = Inr pa
        \<and> legitimacy_score pa = 50
        \<and> scam_indicators pa = [] \<and> positive_indicators pa = []
        \<and> risk_level pa = MEDIUM"
proof -
  have t: "all_text_of (info\<lparr>title := [], description := [], recent_messages := [], admin_count := 0,
                  verified := False, restricted := False, creation_date := None\<rparr>) = ''  ''"
    by (simp add: all_text_of_def)
  show ?thesis
    unfolding analyze_project_def Let_def t detect_scam_blank detect_positive_blank
    by (simp add: calculate_legitimacy_score_def determine_risk_level_def)
qed

theorem empty_input_base_score_medium_witness:
  "\<exists>pa. analyze_project configured_analyzer 0 no_completion empty_community = Inr pa
        \<and> legitimacy_score pa = 50
        \<and> scam_indicators pa = [] \<and> positive_indicators pa = []
        \<and> risk_level pa = MEDIUM"
  using empty_input_base_score_medium [of configured_analyzer 0 no_completion empty_community]
  by (simp add: configured_analyzer_def empty_community_def)

section \<open>Failures inside the core\<close>

text \<open>
  C4 fails on the code: with a market cap that is \<^verbatim>\<open>None\<close>, \<open>identify_project_needs\<close>
  raises \<^verbatim>\<open>TypeError\<close> instead of treating it as zero; and on an analyzer as
  \<^verbatim>\<open>ProjectAnalyzer.__init__\<close> builds it, both indicator detections raise
  \<^verbatim>\<open>AttributeError\<close>.
\<close>

theorem core_raises_on_null_market_cap:
  "identify_project_needs null_cap_info social0 (analyze_technical_aspects null_cap_info)
       team0 community0 = Inl TypeError
   \<and> detect_scam_indicators (ProjectAnalyzer_init None None) ''hello'' = Inl AttributeError
   \<and> detect_positive_indicators (ProjectAnalyzer_init None None) ''hello'' = Inl AttributeError"
  by (simp add: identify_project_needs_def get_market_cap_def null_cap_info_def
      detect_scam_indicators_def detect_positive_indicators_def ProjectAnalyzer_init_def)

section \<open>What the needs depend on\<close>

lemma tech_bare: "analyze_technical_aspects bare_info =
   \<lparr>whitepaper_present = False, github_present = False, contracts_deployed = False,
    contracts_audited = False, technical_score = 0,
    missing_elements = [''github_repository'', ''whitepaper'']\<rparr>"
  by (simp add: analyze_technical_aspects_def bare_info_def calculate_technical_score_def Let_def)

lemma tech_site: "analyze_technical_aspects site_info =
   \<lparr>whitepaper_present = False, github_present = False, contracts_deployed = False,
    contracts_audited = False, technical_score = 0,
    missing_elements = [''github_repository'']\<rparr>"
  by (simp add: analyze_technical_aspects_def site_info_def bare_info_def calculate_technical_score_def Let_def)

text \<open>
  C5, as stated, fails: two inputs with the same social, technical and team scores and the
  same market cap, whose lists of missing technical elements differ, get different lists of
  job opportunities.
\<close>

theorem needs_not_function_of_scores_counterexample:
  "technical_score (analyze_technical_aspects bare_info)
     = technical_score (analyze_technical_aspects site_info)
   \<and> get_market_cap bare_info = get_market_cap site_info
   \<and> map job_category (jobs_of (identify_project_needs bare_info social0
          (analyze_technical_aspects bare_info) team0 community0))
      = [SOCIAL_MEDIA, COMMUNITY_MANAGEMENT, TECHNICAL_WRITING, DEVELOPMENT, PR_MARKETING,
         GRAPHICS_DESIGN, BUSINESS_DEVELOPMENT]
   \<and> map job_category (jobs_of (identify_project_needs site_info social0
          (analyze_technical_aspects site_info) team0 community0))
      = [SOCIAL_MEDIA, COMMUNITY_MANAGEMENT, DEVELOPMENT, PR_MARKETING,
         GRAPHICS_DESIGN, BUSINESS_DEVELOPMENT]
   \<and> jobs_of (identify_project_needs bare_info social0
          (analyze_technical_aspects bare_info) team0 community0)
      \<noteq> jobs_of (identify_project_needs site_info social0
          (analyze_technical_aspects site_info) team0 community0)"
proof -
  have a: "map job_category (jobs_of (identify_project_needs bare_info social0
          (analyze_technical_aspects bare_info) team0 community0))
      = [SOCIAL_MEDIA, COMMUNITY_MANAGEMENT, TECHNICAL_WRITING, DEVELOPMENT, PR_MARKETING,
         GRAPHICS_DESIGN, BUSINESS_DEVELOPMENT]"
    unfolding tech_bare
    by (simp add: identify_project_needs_def social_needs_def technical_needs_def team_needs_def
        branding_needs_def has_professional_branding_def get_market_cap_def bare_info_def
        social0_def team0_def jobs_of_def business_job_def create_job_opportunity_def Let_def)
  have b: "map job_category (jobs_of (identify_project_needs site_info social0
          (analyze_technical_aspects site_info) team0 community0))
      = [SOCIAL_MEDIA, COMMUNITY_MANAGEMENT, DEVELOPMENT, PR_MARKETING,
         GRAPHICS_DESIGN, BUSINESS_DEVELOPMENT]"
    unfolding tech_site
    by (simp add: identify_project_needs_def social_needs_def technical_needs_def team_needs_def
        branding_needs_def has_professional_branding_def get_market_cap_def bare_info_def
        site_info_def
        social0_def team0_def jobs_of_def business_job_def create_job_opportunity_def Let_def)
  have c: "jobs_of (identify_project_needs bare_info social0
          (analyze_technical_aspects bare_info) team0 community0)
      \<noteq> jobs_of (identify_project_needs site_info social0
          (analyze_technical_aspects site_info) team0 community0)"
  proof
    assume "jobs_of (identify_project_needs bare_info social0
          (analyze_technical_aspects bare_info) team0 community0)
      = jobs_of (identify_project_needs site_info social0
          (analyze_technical_aspects site_info) team0 community0)"
    then have "map job_category (jobs_of (identify_project_needs bare_info social0
          (analyze_technical_aspects bare_info) team0 community0))
      = map job_category (jobs_of (identify_project_needs site_info social0
          (analyze_technical_aspects site_info) team0 community0))" by simp
    then show False unfolding a b by simp
  qed
  have d: "technical_score (analyze_technical_aspects bare_info)
     = technical_score (analyze_technical_aspects site_info)"
    unfolding tech_bare tech_site by simp
  have e: "get_market_cap bare_info = get_market_cap site_info"
    by (simp add: get_market_cap_def site_info_def)
  from a b c d e show ?thesis by blast
qed

text \<open>
  C5, amended: the result of \<open>identify_project_needs\<close> is a function of the three scores,
  the market cap, whether \<^verbatim>\<open>twitter\<close> is among the missing platforms, whether the Telegram
  member count is below 1000, and whether \<^verbatim>\<open>whitepaper\<close> and \<^verbatim>\<open>github_repository\<close> are
  among the missing technical elements: two inputs that agree on these get the same result,
  job opportunities in the same order included.
\<close>

theorem needs_determined_by_inputs_read:
  assumes "overall_score s1 = overall_score s2"
    and "technical_score t1 = technical_score t2"
    and "team_score m1 = team_score m2"
    and "get_market_cap b1 = get_market_cap b2"
    and "(''twitter'' \<in> set (missing_platforms s1)) = (''twitter'' \<in> set (missing_platforms s2))"
    and "(telegram_members s1 < 1000) = (telegram_members s2 < 1000)"
    and "(''whitepaper'' \<in> set (missing_elements t1)) = (''whitepaper'' \<in> set (missing_elements t2))"
    and "(''github_repository'' \<in> set (missing_elements t1))
           = (''github_repository'' \<in> set (missing_elements t2))"
  shows "identify_project_needs b1 s1 t1 m1 c1 = identify_project_needs b2 s2 t2 m2 c2"
proof -
  have s: "social_needs s1 acc = social_needs s2 acc" for acc
    using assms(1,5,6) by (simp add: social_needs_def Let_def split: prod.splits)
  have t: "technical_needs t1 acc = technical_needs t2 acc" for acc
    using assms(2,7,8) by (simp add: technical_needs_def Let_def split: prod.splits)
  have m: "team_needs m1 acc = team_needs m2 acc" for acc
    using assms(3) by (simp add: team_needs_def split: prod.splits)
  have b: "branding_needs b1 s1 acc = branding_needs b2 s2 acc" for acc
    by (simp add: branding_needs_def has_professional_branding_def split: prod.splits)
  show ?thesis
    unfolding identify_project_needs_def Let_def s t m b assms(1,2,3,4) ..
qed

theorem needs_determined_by_inputs_read_witness:
  "overall_score social0 = overall_score (social0\<lparr>telegram_members := 500, twitter_followers := 9\<rparr>)
   \<and> get_market_cap bare_info = get_market_cap (bare_info\<lparr>project_name := ''Other''\<rparr>)
   \<and> (telegram_members social0 < 1000)
       = (telegram_members (social0\<lparr>telegram_members := 500, twitter_followers := 9\<rparr>) < 1000)
   \<and> identify_project_needs bare_info social0 (analyze_technical_aspects bare_info) team0 community0
     = identify_project_needs (bare_info\<lparr>project_name := ''Other''\<rparr>)
         (social0\<lparr>telegram_members := 500, twitter_followers := 9\<rparr>)
         (analyze_technical_aspects bare_info\<lparr>contracts_audited := True\<rparr>)
         (team0\<lparr>transparency := ''low''\<rparr>) (community0\<lparr>community_score := 10\<rparr>)"
proof -
  have a: "overall_score social0 = overall_score (social0\<lparr>telegram_members := 500, twitter_followers := 9\<rparr>)"
    by simp
  have b: "get_market_cap bare_info = get_market_cap (bare_info\<lparr>project_name := ''Other''\<rparr>)"
    by (simp add: get_market_cap_def)
  have c: "(telegram_members social0 < 1000)
       = (telegram_members (social0\<lparr>telegram_members := 500, twitter_followers := 9\<rparr>) < 1000)"
    by (simp add: social0_def)
  have d: "technical_score (analyze_technical_aspects bare_info)
         = technical_score (analyze_technical_aspects bare_info\<lparr>contracts_audited := True\<rparr>)"
    by simp
  have e: "team_score team0 = team_score (team0\<lparr>transparency := ''low''\<rparr>)" by simp
  have f: "(''twitter'' \<in> set (missing_platforms social0))
         = (''twitter'' \<in> set (missing_platforms (social0\<lparr>telegram_members := 500, twitter_followers := 9\<rparr>)))"
    by simp
  have g: "(''whitepaper'' \<in> set (missing_elements (analyze_technical_aspects bare_info)))
         = (''whitepaper'' \<in> set (missing_elements (analyze_technical_aspects bare_info\<lparr>contracts_audited := True\<rparr>)))"
    by simp
  have h: "(''github_repository'' \<in> set (missing_elements (analyze_technical_aspects bare_info)))
         = (''github_repository'' \<in> set (missing_elements (analyze_technical_aspects bare_info\<lparr>contracts_audited := True\<rparr>)))"
    by simp
  from a b c needs_determined_by_inputs_read [OF a d e b f c g h, of community0 "community0\<lparr>community_score := 10\<rparr>"]
  show ?thesis by blast
qed

section \<open>Maturity label\<close>

lemma identify_returns:
  assumes "get_market_cap b = PyNum cap"
  shows "\<exists>needs. identify_project_needs b s t m c = Inr needs"
  using assms by (simp add: identify_project_needs_def Let_def split: prod.splits)



section \<open>Business development\<close>








end
